theory Spec2Isabelle
  imports Main "HOL-Library.Sublist" "HOL-Library.AList"
begin

section \<open>The CommonJS export helper (\<^verbatim>\<open>lib/build/helpers/cjs\<close>)\<close>

text \<open>
  A \<^verbatim>\<open>Load\<close> is an ES6 load record. The synthetic node that the bundles configuration
  emitter creates carries a load with a \<^verbatim>\<open>name\<close> only; a load record that comes from the
  loader extends it with the resolved \<^verbatim>\<open>address\<close> and the \<^verbatim>\<open>metadata\<close> object, of which
  the code here reads \<^verbatim>\<open>format\<close> (\<open>None\<close> is JavaScript's \<^verbatim>\<open>undefined\<close>).
\<close>

record load =
  name :: string

record load_metadata =
  format :: "string option"

record load_record = load +
  address :: string
  metadata :: load_metadata

text \<open>
  \<^verbatim>\<open>String.prototype.indexOf\<close>: the least position at which the search string occurs,
  or \<open>-1\<close> when it occurs nowhere.
\<close>

fun indexOf_from :: "string \<Rightarrow> string \<Rightarrow> nat \<Rightarrow> int" where
  "indexOf_from [] p k = (if p = [] then int k else - 1)"
| "indexOf_from (c # s) p k =
     (if prefix p (c # s) then int k else indexOf_from s p (Suc k))"

definition indexOf :: "string \<Rightarrow> string \<Rightarrow> int" where
  "indexOf s p = indexOf_from s p 0"

text \<open>
  The anonymous function that \<^verbatim>\<open>ignore\<close> puts first in its result. It returns \<^verbatim>\<open>true\<close>
  from inside the \<^verbatim>\<open>if\<close> and otherwise falls off its end, returning \<^verbatim>\<open>undefined\<close>
  (\<open>None\<close>); it never returns \<^verbatim>\<open>false\<close>.
\<close>

type_synonym ignore_predicate = "string \<Rightarrow> load_record \<Rightarrow> bool option"

definition ignore_function :: ignore_predicate where
  "ignore_function nm ld =
     (if indexOf (address ld) ''/node_modules/'' \<ge> 0
         \<or> format (metadata ld) = Some ''defined''
      then Some True else None)"

text \<open>
  \<^verbatim>\<open>ignore: function(additional){ return [function(name, load){...}].concat(additional || []); }\<close>

  \<open>additional\<close> is an array of further predicates, or is not given (\<open>None\<close>).
\<close>

definition ignore :: "ignore_predicate list option \<Rightarrow> ignore_predicate list" where
  "ignore additional =
     [ignore_function] @ (case additional of None \<Rightarrow> [] | Some ps \<Rightarrow> ps)"

section \<open>JavaScript values used by the bundles configuration\<close>

text \<open>
  An error value: what a \<^verbatim>\<open>throw\<close> raises or a promise is rejected with. The code reads
  its \<^verbatim>\<open>message\<close> and its \<^verbatim>\<open>stack\<close>. Its kind is one of the error conditions that the
  design names, the language's \<^verbatim>\<open>TypeError\<close>, or any other.
\<close>

datatype error_kind = TypeError | MissingDependency | InvalidConfiguration | EmptyGraph | OtherError

record js_error =
  kind :: error_kind
  message :: string
  stack :: string

text \<open>
  An object used as a dictionary: its own enumerable string-keyed properties, in creation
  order. The assignment \<^verbatim>\<open>obj[k] = v\<close> overwrites the value of an existing property in
  place and appends a new property otherwise. The key \<^verbatim>\<open>__proto__\<close> is the accessor
  inherited from \<^verbatim>\<open>Object.prototype\<close>: assigning an array to it replaces the prototype
  and creates no own property.
\<close>

type_synonym 'v js_object = "(string \<times> 'v) list"

definition obj_set :: "'v js_object \<Rightarrow> string \<Rightarrow> 'v \<Rightarrow> 'v js_object" where
  "obj_set obj k v = (if k = ''__proto__'' then obj else AList.update k v obj)"

text \<open>
  The order in which an object's own keys are enumerated: array indices (canonical decimal
  numerals below \<open>2^32 - 1\<close>) first, ascending, then every other string in creation order.
\<close>

definition is_digit :: "char \<Rightarrow> bool" where
  "is_digit c = (48 \<le> (of_char c :: nat) \<and> (of_char c :: nat) \<le> 57)"

definition dec_val :: "string \<Rightarrow> nat" where
  "dec_val k = foldl (\<lambda>n c. 10 * n + ((of_char c :: nat) - 48)) 0 k"

definition array_index :: "string \<Rightarrow> nat option" where
  "array_index k =
     (if k \<noteq> [] \<and> list_all is_digit k \<and> (k = ''0'' \<or> hd k \<noteq> CHR ''0'')
         \<and> dec_val k < 2 ^ 32 - 1
      then Some (dec_val k) else None)"

definition ownPropertyKeys :: "'v js_object \<Rightarrow> string list" where
  "ownPropertyKeys obj =
     sort_key (\<lambda>k. the (array_index k)) (filter (\<lambda>k. array_index k \<noteq> None) (map fst obj))
     @ filter (\<lambda>k. array_index k = None) (map fst obj)"

text \<open>
  \<^verbatim>\<open>JSON.stringify\<close> on an object whose values are arrays of strings, with no indentation.
  A \<open>char\<close> stands for a code unit below 256; \<^verbatim>\<open>Quote\<close> escapes the double quote, the
  backslash and the control characters, and copies everything else.
\<close>

definition hex_digit :: "nat \<Rightarrow> char" where
  "hex_digit n = ''0123456789abcdef'' ! (n mod 16)"

definition json_escape :: "char \<Rightarrow> string" where
  "json_escape c =
     (if c = CHR 0x22 then [CHR 0x5C, CHR 0x22]
      else if c = CHR 0x5C then [CHR 0x5C, CHR 0x5C]
      else if c = CHR 0x08 then [CHR 0x5C, CHR ''b'']
      else if c = CHR 0x0C then [CHR 0x5C, CHR ''f'']
      else if c = CHR 0x0A then [CHR 0x5C, CHR ''n'']
      else if c = CHR 0x0D then [CHR 0x5C, CHR ''r'']
      else if c = CHR 0x09 then [CHR 0x5C, CHR ''t'']
      else if (of_char c :: nat) < 32
        then [CHR 0x5C, CHR ''u'', CHR ''0'', CHR ''0'',
              hex_digit ((of_char c :: nat) div 16), hex_digit (of_char c :: nat)]
      else [c])"

definition json_quote :: "string \<Rightarrow> string" where
  "json_quote s = [CHR 0x22] @ concat (map json_escape s) @ [CHR 0x22]"

fun join :: "string \<Rightarrow> string list \<Rightarrow> string" where
  "join sep [] = []"
| "join sep [x] = x"
| "join sep (x # y # ys) = x @ sep @ join sep (y # ys)"

definition json_array :: "string list \<Rightarrow> string" where
  "json_array xs = ''['' @ join '','' (map json_quote xs) @ '']''"

definition json_member :: "string list js_object \<Rightarrow> string \<Rightarrow> string" where
  "json_member obj k = json_quote k @ '':'' @ json_array (the (map_of obj k))"

definition JSON_stringify :: "string list js_object \<Rightarrow> string" where
  "JSON_stringify obj = ''{'' @ join '','' (map (json_member obj) (ownPropertyKeys obj)) @ ''}''"

text \<open>
  \<^verbatim>\<open>util.format\<close> with string arguments: each \<^verbatim>\<open>%s\<close> takes the next argument while there
  is one and stays as it is afterwards, \<^verbatim>\<open>%%\<close> is a percent sign, and the arguments left
  over are appended, each after a space. (The directives \<^verbatim>\<open>%d\<close> and \<^verbatim>\<open>%j\<close> do not occur
  in this repository's format string and are not modelled.)
\<close>

fun util_format :: "string \<Rightarrow> string list \<Rightarrow> string" where
  "util_format [] as = concat (map (\<lambda>a. CHR '' '' # a) as)"
| "util_format [c] as = c # concat (map (\<lambda>a. CHR '' '' # a) as)"
| "util_format (c # d # f) as =
     (if c = CHR ''%'' \<and> d = CHR ''s'' \<and> as \<noteq> [] then hd as @ util_format f (tl as)
      else if c = CHR ''%'' \<and> d = CHR ''%'' then CHR ''%'' # util_format f as
      else c # util_format (d # f) as)"

text \<open>
  Arrays are mutable and shared by reference: a heap is the list of the arrays allocated
  so far, an array's address is its position. \<^verbatim>\<open>slice(0)\<close> allocates a copy;
  \<^verbatim>\<open>shift()\<close> removes the first element of the array it is called on, in place, and does
  nothing to an empty one. Reading through an address the heap does not hold is the
  \<^verbatim>\<open>TypeError\<close> of calling a method on \<^verbatim>\<open>undefined\<close>.
\<close>

type_synonym addr = nat
type_synonym 'a heap = "'a list list"

definition type_error :: js_error where
  "type_error = \<lparr>kind = TypeError, message = ''undefined is not an object'', stack = []\<rparr>"

definition slice0 :: "'a heap \<Rightarrow> addr \<Rightarrow> js_error + (addr \<times> 'a heap)" where
  "slice0 h a = (if a < length h then Inr (length h, h @ [h ! a]) else Inl type_error)"

definition shift :: "'a heap \<Rightarrow> addr \<Rightarrow> 'a heap" where
  "shift h a = h[a := (case h ! a of [] \<Rightarrow> [] | x # xs \<Rightarrow> xs)]"

section \<open>The bundles configuration emitter (\<^verbatim>\<open>lib/bundle/make_bundles_config\<close>)\<close>

text \<open>
  A \<^verbatim>\<open>Node\<close> holds the load and what the build tools add to it; a bundle graph holds the
  nodes written to one file, the names of the entry-point bundles it serves and, once the
  namer has run, its \<^verbatim>\<open>name\<close>. The loader and the options are the parts of the
  configuration that this code reads. An option that is \<open>None\<close> is a property the
  object does not have; a condition \<^verbatim>\<open>if(flag)\<close> holds of \<^verbatim>\<open>true\<close> only.
\<close>

record node =
  load :: load
  minifiedSource :: "string option"

record "bundle" =
  name :: "string option"
  nodes :: "node list"
  bundles :: "string list"

record loader =
  baseURL :: string
  main :: string
  "bundle" :: "string list option"
  bundlesPath :: "string option"

record options =
  minify :: "bool option"
  bundleSteal :: "bool option"

record configuration =
  loader :: loader
  options :: options
  bundlesPathURL :: string

text \<open>\<^verbatim>\<open>!configuration.loader.bundlesPath\<close> holds of \<^verbatim>\<open>undefined\<close> and of the empty string.\<close>

definition truthy :: "string option \<Rightarrow> bool" where
  "truthy v = (case v of None \<Rightarrow> False | Some s \<Rightarrow> s \<noteq> [])"

definition getBundlesPaths :: "configuration \<Rightarrow> string" where
  "getBundlesPaths configuration =
     (if \<not> truthy (bundlesPath (loader configuration)) then []
      else
        let bundlesPath = bundlesPathURL configuration;
            paths = util_format
              (''System.paths[\"bundles/*.css\"] =\"%s/*css\";\<newline>'' @
               ''System.paths[\"bundles/*\"] = \"%s/*.js\";\<newline>'')
              [bundlesPath, bundlesPath]
        in paths)"

text \<open>
  The property key that \<^verbatim>\<open>bundlesConfig[bundle.name]\<close> addresses: the name, or the string
  \<^verbatim>\<open>undefined\<close> for a bundle that has none.
\<close>

definition property_key :: "bundle \<Rightarrow> string" where
  "property_key b = (case bundle.name b of None \<Rightarrow> ''undefined'' | Some n \<Rightarrow> n)"

definition module_names :: "bundle \<Rightarrow> string list" where
  "module_names b = map (\<lambda>node. load.name (load node)) (nodes b)"

text \<open>The \<^verbatim>\<open>forEach\<close> that fills \<^verbatim>\<open>bundlesConfig\<close>, in the order of the array.\<close>

definition fill_bundlesConfig :: "bundle list \<Rightarrow> string list js_object" where
  "fill_bundlesConfig bundledBundles =
     foldl (\<lambda>obj b. obj_set obj (property_key b) (module_names b)) [] bundledBundles"

text \<open>
  The exported function. \<open>bundles_ref\<close> is the address of the caller's array; the result is
  the configuration node, or the error raised, with the heap as the call leaves it.
\<close>

definition make_bundles_config ::
  "bundle heap \<Rightarrow> addr \<Rightarrow> configuration \<Rightarrow> (js_error + node) \<times> bundle heap" where
  "make_bundles_config h bundles_ref configuration =
     (let paths = getBundlesPaths configuration in
      case slice0 h bundles_ref of
        Inl e \<Rightarrow> (Inl e, h)
      | Inr (bundledBundles, h1) \<Rightarrow>
          let h2 = (if bundleSteal (options configuration) = Some True
                    then shift h1 bundledBundles else h1);
              bundlesConfig = fill_bundlesConfig (h2 ! bundledBundles)
          in (Inr \<lparr>load = \<lparr>load.name = ''[system-bundles-config]''\<rparr>,
                   minifiedSource =
                     Some (paths @ ''System.bundles = '' @ JSON_stringify bundlesConfig @ '';'')\<rparr>,
              h2))"

section \<open>The multi-bundle build (\<^verbatim>\<open>lib/build/multi\<close>)\<close>

text \<open>
  The dependency graph is an object from module names to nodes. Of the \<^verbatim>\<open>config\<close>
  argument the build reads \<^verbatim>\<open>bundleDepth\<close> itself and hands the whole to the graph
  builder; of the graph builder's result it reads the graph and the two loaders.
\<close>

type_synonym dependency_graph = "node js_object"

record config =
  bundleDepth :: "int option"

record data =
  graph :: dependency_graph
  loader :: loader
  buildLoader :: loader

text \<open>
  What a \<^verbatim>\<open>throw\<close> raises or a promise is rejected with is any value: \<^verbatim>\<open>undefined\<close>,
  \<^verbatim>\<open>null\<close>, an error object, or another value, which has no \<^verbatim>\<open>message\<close> and no \<^verbatim>\<open>stack\<close>.
  Reading a property of \<^verbatim>\<open>undefined\<close> or \<^verbatim>\<open>null\<close> throws a \<^verbatim>\<open>TypeError\<close>; reading a
  property that a value does not have gives \<^verbatim>\<open>undefined\<close> (\<open>None\<close>).
\<close>

datatype thrown = ThrownUndefined | ThrownNull | ThrownValue | ThrownError js_error

definition nullish :: "thrown \<Rightarrow> bool" where
  "nullish e = (e = ThrownUndefined \<or> e = ThrownNull)"

definition message_of :: "thrown \<Rightarrow> string option" where
  "message_of e = (case e of ThrownError err \<Rightarrow> Some (message err) | _ \<Rightarrow> None)"

definition stack_of :: "thrown \<Rightarrow> string option" where
  "stack_of e = (case e of ThrownError err \<Rightarrow> Some (stack err) | _ \<Rightarrow> None)"

text \<open>
  The calls that a run makes, in the order in which it makes them: the calls that leave
  this file and the \<^verbatim>\<open>unshift\<close> on \<^verbatim>\<open>masterJS.nodes\<close>. A call to the flattener records
  the depth it is given, a call to \<^verbatim>\<open>winston.error\<close> the message and the stack it is
  given. The trace of a run pairs each call with what it raised, if it raised anything;
  for a call that returns a promise that is the exception it throws or the rejection of
  the promise.
\<close>

datatype event =
    LoggingSetup
  | MakeBundleGraph
  | HasES6
  | MakeConfiguration
  | Pluck string
  | Order string
  | Transpile string
  | MinifyGraph
  | PluckOnlyInBundle string
  | WinstonInfo string
  | MakeBundle
  | FlattenBundle int
  | SplitByBuildType
  | NameBundle
  | MakeBundlesConfig
  | Unshift
  | AddStealToBundle
  | AddTraceurRuntime
  | WriteBundles
  | WinstonError "string option" "string option"

type_synonym trace = "(event \<times> thrown option) list"

text \<open>
  The functions that \<^verbatim>\<open>multi.js\<close> requires from the rest of the repository and from
  \<^verbatim>\<open>winston\<close> are parameters of the build, each a function of its arguments. Each returns
  its result or what it throws (\<open>Inl\<close>); one that changes its argument in place returns
  the argument as it leaves it; one whose result is not used returns what it throws, if
  anything. \<^verbatim>\<open>makeBundleGraph\<close> either throws or returns a promise, which is rejected or
  fulfilled with the data; \<^verbatim>\<open>writeBundles\<close> ends in a value or in an error (thrown, or
  the rejection of its promise). \<^verbatim>\<open>minifyGraph\<close> is called on the graph and on an array
  of nodes; \<^verbatim>\<open>nameBundle\<close> is the callback of a \<^verbatim>\<open>forEach\<close> and receives the bundle,
  its index and the array. A result that is returned has the shape that the build reads
  of it (the data has a graph and two loaders, the pluckers and splitters return arrays);
  what is raised is any value.
\<close>

record ('x, 'r) collaborators =
  logging_setup :: "options \<Rightarrow> thrown option"
  makeBundleGraph :: "'x config_scheme \<Rightarrow> thrown + (thrown + data)"
  hasES6 :: "dependency_graph \<Rightarrow> thrown + bool"
  makeConfiguration :: "loader \<Rightarrow> loader \<Rightarrow> options \<Rightarrow> thrown + configuration"
  pluck :: "dependency_graph \<Rightarrow> string \<Rightarrow> thrown + (node list \<times> dependency_graph)"
  order :: "dependency_graph \<Rightarrow> string \<Rightarrow> thrown + dependency_graph"
  transpile :: "dependency_graph \<Rightarrow> string \<Rightarrow> thrown + dependency_graph"
  minifyGraph :: "dependency_graph \<Rightarrow> thrown + dependency_graph"
  minifyGraph_nodes :: "node list \<Rightarrow> thrown + node list"
  pluckOnlyInBundle :: "dependency_graph \<Rightarrow> string \<Rightarrow> thrown + dependency_graph"
  winston_info :: "string \<Rightarrow> thrown option"
  makeBundle :: "dependency_graph \<Rightarrow> thrown + (bundle list \<times> dependency_graph)"
  flattenBundle :: "bundle list \<Rightarrow> int \<Rightarrow> thrown + bundle list"
  splitByBuildType :: "bundle list \<Rightarrow> thrown + bundle list"
  nameBundle :: "bundle \<Rightarrow> nat \<Rightarrow> bundle list \<Rightarrow> thrown + bundle"
  addStealToBundle :: "bundle \<Rightarrow> string \<Rightarrow> thrown + bundle"
  addTraceurRuntime :: "bundle \<Rightarrow> thrown + bundle"
  writeBundles :: "bundle list \<Rightarrow> configuration \<Rightarrow> thrown + 'r"
  winston_error :: "string option \<Rightarrow> string option \<Rightarrow> thrown option"

text \<open>
  A piece of the build yields its result, or what ended it, and the trace of the calls it
  made. Sequencing stops at the first call that raises and keeps the trace until then.
\<close>

type_synonym 'a action = "(thrown + 'a) \<times> trace"

definition raised :: "thrown + 'a \<Rightarrow> thrown option" where
  "raised r = (case r of Inl e \<Rightarrow> Some e | Inr x \<Rightarrow> None)"

definition call :: "event \<Rightarrow> thrown + 'a \<Rightarrow> 'a action" where
  "call ev r = (r, [(ev, raised r)])"

definition ret :: "'a \<Rightarrow> 'a action" where
  "ret x = (Inr x, [])"

definition and_then :: "'a action \<Rightarrow> ('a \<Rightarrow> 'b action) \<Rightarrow> 'b action" where
  "and_then m f =
     (case m of
        (Inl e, es) \<Rightarrow> (Inl e, es)
      | (Inr x, es) \<Rightarrow> (case f x of (r, es') \<Rightarrow> (r, es @ es')))"

text \<open>The result of a call that returns nothing, and of the emitter, whose errors are objects.\<close>

definition returned :: "thrown option \<Rightarrow> thrown + unit" where
  "returned r = (case r of Some e \<Rightarrow> Inl e | None \<Rightarrow> Inr ())"

definition lift_error :: "js_error + 'a \<Rightarrow> thrown + 'a" where
  "lift_error r = (case r of Inl e \<Rightarrow> Inl (ThrownError e) | Inr x \<Rightarrow> Inr x)"


text \<open>\<^verbatim>\<open>config.bundleDepth || 3\<close>: the depth, or 3 when it is absent or zero.\<close>

definition flatten_depth :: "'x config_scheme \<Rightarrow> int" where
  "flatten_depth config =
     (case bundleDepth config of None \<Rightarrow> 3 | Some d \<Rightarrow> if d = 0 then 3 else d)"

text \<open>\<^verbatim>\<open>(data.loader.bundle || []).forEach(function(moduleName){ order(dependencyGraph, moduleName); })\<close>\<close>

fun forEach_order ::
  "('x, 'r) collaborators \<Rightarrow> string list \<Rightarrow> dependency_graph \<Rightarrow> dependency_graph action" where
  "forEach_order c [] g = ret g"
| "forEach_order c (moduleName # rest) g =
     and_then (call (Order moduleName) (order c g moduleName)) (forEach_order c rest)"

text \<open>
  \<^verbatim>\<open>splitBundles.forEach(nameBundle)\<close>: the bundles before the current one have been
  named already when the callback sees the array.
\<close>

fun forEach_nameBundle ::
  "('x, 'r) collaborators \<Rightarrow> bundle list \<Rightarrow> bundle list \<Rightarrow> bundle list action" where
  "forEach_nameBundle c named [] = ret named"
| "forEach_nameBundle c named (b # rest) =
     and_then (call NameBundle (nameBundle c b (length named) (named @ b # rest)))
       (\<lambda>b'. forEach_nameBundle c (named @ [b']) rest)"

text \<open>
  The function given to \<^verbatim>\<open>then\<close>. Values stand for the objects: \<open>masterJS\<close> is the
  first element of \<open>splitMaster\<close> and, once that is put in front of \<open>splitBundles\<close>, the
  first element of the array too, so what the namer, \<^verbatim>\<open>unshift\<close>, \<^verbatim>\<open>addStealToBundle\<close>
  and \<^verbatim>\<open>addTraceurRuntime\<close> do to it is done to that element. With an empty
  \<open>splitMaster\<close>, \<open>masterJS\<close> is \<^verbatim>\<open>undefined\<close> and \<^verbatim>\<open>masterJS.nodes.unshift(configNode)\<close>
  throws a \<^verbatim>\<open>TypeError\<close>.
\<close>

definition on_graph ::
  "('x, 'r) collaborators \<Rightarrow> 'x config_scheme \<Rightarrow> options \<Rightarrow> bool \<Rightarrow> data \<Rightarrow> 'r action" where
  "on_graph c config opts minify_on d =
     (let dependencyGraph = graph d;
          main_name = main (data.loader d)
      in
      and_then (call HasES6 (hasES6 c dependencyGraph)) (\<lambda>hasES6modules.
      and_then (call MakeConfiguration
                 (makeConfiguration c (data.loader d) (buildLoader d) opts)) (\<lambda>configuration.
      and_then (call (Pluck ''@config'') (pluck c dependencyGraph ''@config''))
        (\<lambda>(stealconfig, g1).
      and_then (call (Pluck ''@dev'') (pluck c g1 ''@dev'')) (\<lambda>(dev, g2).
      and_then (forEach_order c
                 (case loader.bundle (data.loader d) of None \<Rightarrow> [] | Some ms \<Rightarrow> ms) g2) (\<lambda>g3.
      and_then (call (Transpile ''amd'') (transpile c g3 ''amd'')) (\<lambda>g4.
      and_then (if minify_on then call MinifyGraph (minifyGraph c g4) else ret g4) (\<lambda>g5.
      and_then (call (Pluck main_name) (pluck c g5 main_name)) (\<lambda>(mainNodes, g6).
      let stealConfigAndMain = stealconfig @ mainNodes in
      and_then (call (PluckOnlyInBundle main_name) (pluckOnlyInBundle c g6 main_name)) (\<lambda>g7.
      and_then (if minify_on
                then call (WinstonInfo ''Minifying...'') (returned (winston_info c ''Minifying...''))
                else ret ()) (\<lambda>_.
      and_then (if minify_on then call MinifyGraph (minifyGraph_nodes c stealConfigAndMain)
                else ret stealConfigAndMain) (\<lambda>masterNodes.
      let masterBundle = \<lparr>bundle.name = None, nodes = masterNodes, bundles = [main_name]\<rparr> in
      and_then (call MakeBundle (makeBundle c g7)) (\<lambda>(made, g8).
      and_then (call (FlattenBundle (flatten_depth config))
                 (flattenBundle c made (flatten_depth config))) (\<lambda>flattened.
      and_then (call SplitByBuildType (splitByBuildType c flattened)) (\<lambda>split.
      and_then (call SplitByBuildType (splitByBuildType c [masterBundle])) (\<lambda>splitMaster.
      and_then (forEach_nameBundle c [] (splitMaster @ split)) (\<lambda>splitBundles.
      and_then (call MakeBundlesConfig
                 (lift_error (fst (make_bundles_config [splitBundles] 0 configuration))))
        (\<lambda>configNode.
      let splitBundles = snd (make_bundles_config [splitBundles] 0 configuration) ! 0 in
      and_then (call Unshift
                 (case splitMaster of
                    [] \<Rightarrow> Inl (ThrownError type_error)
                  | _ \<Rightarrow> Inr ((hd splitBundles)\<lparr>nodes := configNode # nodes (hd splitBundles)\<rparr>)))
        (\<lambda>masterJS.
      and_then (if bundleSteal opts = Some True
                then call AddStealToBundle (addStealToBundle c masterJS main_name)
                else ret masterJS) (\<lambda>masterJS.
      and_then (if hasES6modules then call AddTraceurRuntime (addTraceurRuntime c masterJS)
                else ret masterJS) (\<lambda>masterJS.
      call WriteBundles (writeBundles c (masterJS # tl splitBundles) configuration)
      )))))))))))))))))))))"

text \<open>
  What the caller of the exported function gets: the exception the call throws, or the
  promise it returns, rejected with a value or fulfilled with a value (\<open>None\<close> is
  \<^verbatim>\<open>undefined\<close>).
\<close>

datatype 'r outcome = Throws thrown | Rejected thrown | Fulfilled "'r option"

text \<open>
  \<^verbatim>\<open>.catch(function(e){ winston.error(e.message, e.stack); })\<close>: the handler reads the
  message and the stack of what it caught, which throws a \<^verbatim>\<open>TypeError\<close> when that is
  \<^verbatim>\<open>undefined\<close> or \<^verbatim>\<open>null\<close>, and calls \<^verbatim>\<open>winston.error\<close>. When that returns, the handler
  returns nothing, which fulfils the promise of the chain with \<^verbatim>\<open>undefined\<close>; what the
  handler throws rejects it.
\<close>

definition handler :: "('x, 'r) collaborators \<Rightarrow> thrown \<Rightarrow> 'r outcome \<times> trace" where
  "handler c e =
     (if nullish e then (Rejected (ThrownError type_error), [])
      else
        (case winston_error c (message_of e) (stack_of e) of
           None \<Rightarrow> (Fulfilled None, [(WinstonError (message_of e) (stack_of e), None)])
         | Some e' \<Rightarrow> (Rejected e', [(WinstonError (message_of e) (stack_of e), Some e')])))"



section \<open>Stages, positions and predicates on traces\<close>

text \<open>
  The seven stages of the pipeline, numbered in the order in which the design names them:
  graph construction, order assignment, extraction, flattening, splitting by build type,
  naming, emission of the bundles configuration. Every other call has no stage.
\<close>

fun stage :: "event \<Rightarrow> nat option" where
  "stage MakeBundleGraph = Some 0"
| "stage (Order m) = Some 1"
| "stage MakeBundle = Some 2"
| "stage (FlattenBundle d) = Some 3"
| "stage SplitByBuildType = Some 4"
| "stage NameBundle = Some 5"
| "stage MakeBundlesConfig = Some 6"
| "stage ev = None"

definition stages :: "trace \<Rightarrow> nat list" where
  "stages t = List.map_filter stage (map fst t)"

text \<open>
  The place of a call in the text of the exported function. The two plucks of the
  bootstrap modules come before the ordering, the pluck of the main module after it.
\<close>

fun position :: "event \<Rightarrow> nat" where
  "position LoggingSetup = 0"
| "position MakeBundleGraph = 1"
| "position HasES6 = 2"
| "position MakeConfiguration = 3"
| "position (Pluck m) = (if m = ''@config'' \<or> m = ''@dev'' then 4 else 7)"
| "position (Order m) = 5"
| "position (Transpile f) = 6"
| "position MinifyGraph = 7"
| "position (PluckOnlyInBundle m) = 7"
| "position (WinstonInfo s) = 7"
| "position MakeBundle = 8"
| "position (FlattenBundle d) = 9"
| "position SplitByBuildType = 10"
| "position NameBundle = 11"
| "position MakeBundlesConfig = 12"
| "position Unshift = 13"
| "position AddStealToBundle = 14"
| "position AddTraceurRuntime = 15"
| "position WriteBundles = 16"
| "position (WinstonError m s) = 17"

text \<open>A call is in a trace; a call that satisfies a predicate raised in a trace.\<close>

definition called :: "event \<Rightarrow> trace \<Rightarrow> bool" where
  "called ev t = (ev \<in> fst ` set t)"

definition raised_in :: "(event \<Rightarrow> bool) \<Rightarrow> trace \<Rightarrow> bool" where
  "raised_in X t = list_ex (\<lambda>x. X (fst x) \<and> snd x \<noteq> None) t"




section \<open>Predicates on pieces of the build\<close>



text \<open>A piece that is ended by an error has made a call that raised and satisfies a predicate.\<close>

definition excused :: "(event \<Rightarrow> bool) \<Rightarrow> 'a action \<Rightarrow> bool" where
  "excused X m = (case fst m of Inl e \<Rightarrow> raised_in X (snd m) | Inr v \<Rightarrow> True)"

text \<open>A piece makes a call, or has made a call that raised and satisfies a predicate.\<close>

definition reaches :: "(event \<Rightarrow> bool) \<Rightarrow> event \<Rightarrow> 'a action \<Rightarrow> bool" where
  "reaches X ev m = (called ev (snd m) \<or> raised_in X (snd m))"

text \<open>
  A piece is ended by what its last call raised, and by nothing else: no call before the
  last raised, and the last did not either when the piece ends with a result.
\<close>

definition honest :: "'a action \<Rightarrow> bool" where
  "honest m =
     (case fst m of
        Inr v \<Rightarrow> list_all (\<lambda>x. snd x = None) (snd m)
      | Inl e \<Rightarrow>
          snd m \<noteq> [] \<and> snd (last (snd m)) = Some e
          \<and> list_all (\<lambda>x. snd x = None) (butlast (snd m)))"


section \<open>Sample inputs\<close>

text \<open>
  A small graph and the simplest collaborators, each of which returns normally: plucking
  removes the named node alone, the extractor puts every remaining node in a bundle of its
  own, the namer names a bundle after the entry points it serves, and nothing is
  transpiled, minified, merged or split. Further sets differ from it in the flattener,
  which raises an error object or \<^verbatim>\<open>undefined\<close>, and in the logger, which throws.
\<close>

definition sample_node :: "string \<Rightarrow> node" where
  "sample_node n = \<lparr>load = \<lparr>load.name = n\<rparr>, minifiedSource = None\<rparr>"

definition sample_loader :: loader where
  "sample_loader =
     \<lparr>baseURL = ''/app/'', main = ''main'', bundle = Some [''app_a'', ''app_b''],
      bundlesPath = None\<rparr>"









definition named_bundle :: "string \<Rightarrow> string list \<Rightarrow> bundle" where
  "named_bundle n ms = \<lparr>bundle.name = Some n, nodes = map sample_node ms, bundles = []\<rparr>"

definition sample_configuration :: "bool \<Rightarrow> string option \<Rightarrow> configuration" where
  "sample_configuration steal path =
     \<lparr>configuration.loader = sample_loader\<lparr>bundlesPath := path\<rparr>,
      options = \<lparr>minify = Some True, bundleSteal = Some steal\<rparr>,
      bundlesPathURL = ''/app/dist/bundles''\<rparr>"

definition sample_load :: "string \<Rightarrow> string option \<Rightarrow> load_record" where
  "sample_load a f = \<lparr>load.name = ''m'', address = a, metadata = \<lparr>format = f\<rparr>\<rparr>"

section \<open>Properties of the CommonJS helper\<close>

lemma indexOf_from_found: "(indexOf_from s p k \<ge> 0) = sublist p s"
proof (induction s arbitrary: k)
  case Nil
  show ?case by simp
next
  case (Cons c s)
  show ?case
  proof (cases "prefix p (c # s)")
    case True
    then show ?thesis by auto
  next
    case False
    then have "p \<noteq> []" by auto
    with False Cons show ?thesis
      by (simp add: sublist_Cons_right)
  qed
qed

lemma indexOf_found: "(indexOf s p \<ge> 0) = sublist p s"
  by (simp add: indexOf_def indexOf_from_found)

text \<open>
  C10. The first element of the list that \<^verbatim>\<open>ignore\<close> returns is a predicate that
  returns \<^verbatim>\<open>true\<close> exactly when the load's address contains \<^verbatim>\<open>/node_modules/\<close> or
  the load's \<^verbatim>\<open>metadata.format\<close> is \<^verbatim>\<open>"defined"\<close>, and \<^verbatim>\<open>undefined\<close> otherwise; the
  caller's additional predicates follow it, unchanged and in their order.
\<close>

theorem cjs_ignore_first_predicate:
  "hd (ignore additional) nm ld =
     (if sublist ''/node_modules/'' (address ld) \<or> format (metadata ld) = Some ''defined''
      then Some True else None)
   \<and> tl (ignore additional) = (case additional of None \<Rightarrow> [] | Some ps \<Rightarrow> ps)"
  by (simp add: ignore_def ignore_function_def indexOf_found)

theorem cjs_ignore_first_predicate_witness:
  "hd (ignore None) ''jquery'' (sample_load ''file:/app/node_modules/jquery/jquery.js'' None)
     = Some True
   \<and> hd (ignore None) ''app'' (sample_load ''file:/app/src/app.js'' (Some ''defined'')) = Some True
   \<and> hd (ignore None) ''app'' (sample_load ''file:/app/src/app.js'' (Some ''amd'')) = None
   \<and> tl (ignore (Some [\<lambda>n l. Some True])) = [\<lambda>n l. Some True]"
  using cjs_ignore_first_predicate[of None "''jquery''"
      "sample_load ''file:/app/node_modules/jquery/jquery.js'' None"]
    cjs_ignore_first_predicate[of None "''app''" "sample_load ''file:/app/src/app.js'' (Some ''defined'')"]
    cjs_ignore_first_predicate[of None "''app''" "sample_load ''file:/app/src/app.js'' (Some ''amd'')"]
    cjs_ignore_first_predicate[of "Some [\<lambda>n l. Some True]" "''app''"
      "sample_load ''file:/app/src/app.js'' None"]
  by (simp add: sample_load_def sublist_code)

section \<open>Properties of the bundles configuration emitter\<close>

subsection \<open>The path statements\<close>

lemma getBundlesPaths_set:
  "truthy (bundlesPath (configuration.loader c)) \<Longrightarrow>
   getBundlesPaths c =
     ''System.paths[\"bundles/*.css\"] =\"'' @ bundlesPathURL c @ ''/*css\";\<newline>'' @
     ''System.paths[\"bundles/*\"] = \"'' @ bundlesPathURL c @ ''/*.js\";\<newline>''"
  by (simp add: getBundlesPaths_def Let_def)

lemma getBundlesPaths_unset:
  "\<not> truthy (bundlesPath (configuration.loader c)) \<Longrightarrow> getBundlesPaths c = []"
  by (simp add: getBundlesPaths_def)

subsection \<open>The object that the loop fills\<close>

lemma fill_snoc:
  "fill_bundlesConfig (bs @ [b]) = obj_set (fill_bundlesConfig bs) (property_key b) (module_names b)"
  by (simp add: fill_bundlesConfig_def)

lemma fill_keys:
  "fst ` set (fill_bundlesConfig bs) = property_key ` set bs - {''__proto__''}"
proof (induction bs rule: rev_induct)
  case Nil
  show ?case by (simp add: fill_bundlesConfig_def)
next
  case (snoc b bs)
  then show ?case
    by (auto simp: fill_snoc obj_set_def dom_update)
qed

lemma fill_lookup:
  "distinct (map property_key bs) \<Longrightarrow> b \<in> set bs \<Longrightarrow> property_key b \<noteq> ''__proto__'' \<Longrightarrow>
   map_of (fill_bundlesConfig bs) (property_key b) = Some (module_names b)"
proof (induction bs rule: rev_induct)
  case Nil
  then show ?case by simp
next
  case (snoc x bs)
  show ?case
  proof (cases "b \<in> set bs")
    case True
    with snoc.prems have "property_key x \<noteq> property_key b" by force
    moreover from snoc True have "map_of (fill_bundlesConfig bs) (property_key b) = Some (module_names b)"
      by simp
    ultimately show ?thesis
      by (simp add: fill_snoc obj_set_def update_conv')
  next
    case False
    with snoc.prems have "b = x" by simp
    with snoc.prems show ?thesis
      by (simp add: fill_snoc obj_set_def update_conv')
  qed
qed

subsection \<open>The serialised object\<close>

lemma set_ownPropertyKeys: "set (ownPropertyKeys obj) = fst ` set obj"
  by (auto simp: ownPropertyKeys_def)

lemma sublist_join: "x \<in> set xs \<Longrightarrow> sublist x (join sep xs)"
proof (induction sep xs rule: join.induct)
  case (1 sep)
  then show ?case by simp
next
  case (2 sep x)
  then show ?case by simp
next
  case (3 sep x y ys)
  then show ?case
    by (auto intro: sublist_appendI sublist_append_rightI simp: sublist_append)
qed

lemma sublist_wrap: "sublist x y \<Longrightarrow> sublist x (p @ y @ s)"
proof -
  assume "sublist x y"
  then obtain a b where "y = a @ x @ b" by (auto simp: sublist_def)
  then have "p @ y @ s = (p @ a) @ x @ (b @ s)" by simp
  then show ?thesis unfolding sublist_def by blast
qed

lemma stringify_member:
  assumes "k \<in> fst ` set obj"
  shows "sublist (json_quote k @ '':'' @ json_array (the (map_of obj k))) (JSON_stringify obj)"
proof -
  have "json_member obj k \<in> set (map (json_member obj) (ownPropertyKeys obj))"
    using assms by (simp add: set_ownPropertyKeys)
  then have "sublist (json_member obj k) (join '','' (map (json_member obj) (ownPropertyKeys obj)))"
    by (rule sublist_join)
  then have "sublist (json_member obj k) (JSON_stringify obj)"
    unfolding JSON_stringify_def by (rule sublist_wrap)
  then show ?thesis
    by (simp only: json_member_def)
qed

lemma key_not_in_image: "k \<notin> f ` A \<Longrightarrow> b \<in> A \<Longrightarrow> f b \<noteq> k"
  by auto

subsection \<open>The emitter\<close>

lemma make_bundles_config_result:
  assumes "a < length h"
  shows "make_bundles_config h a cfg =
    (Inr \<lparr>load = \<lparr>load.name = ''[system-bundles-config]''\<rparr>,
          minifiedSource = Some (getBundlesPaths cfg @ ''System.bundles = '' @
             JSON_stringify (fill_bundlesConfig
               (if bundleSteal (options cfg) = Some True then tl (h ! a) else h ! a)) @ '';'')\<rparr>,
     h @ [if bundleSteal (options cfg) = Some True then tl (h ! a) else h ! a])"
  using assms
  by (auto simp: make_bundles_config_def slice0_def shift_def Let_def nth_append split: list.splits)

lemma make_bundles_config_dangling:
  "\<not> a < length h \<Longrightarrow> make_bundles_config h a cfg = (Inl type_error, h)"
  by (simp add: make_bundles_config_def slice0_def)

lemma manifest_entry:
  assumes "distinct (map property_key bs)"
    and "''__proto__'' \<notin> property_key ` set bs"
    and "b \<in> set bs"
  shows "map_of (fill_bundlesConfig bs) (property_key b) = Some (module_names b)
       \<and> sublist (json_quote (property_key b) @ '':'' @ json_array (module_names b))
            (JSON_stringify (fill_bundlesConfig bs))"
proof -
  from assms(2,3) have key: "property_key b \<noteq> ''__proto__''" by (rule key_not_in_image)
  have look: "map_of (fill_bundlesConfig bs) (property_key b) = Some (module_names b)"
    using assms(1,3) key by (rule fill_lookup)
  from assms(3) key have "property_key b \<in> fst ` set (fill_bundlesConfig bs)"
    by (simp add: fill_keys)
  from stringify_member[OF this] look show ?thesis by simp
qed

lemma hd_key_not_in_tl:
  assumes "distinct (map f bs)" and "bs \<noteq> []"
  shows "f (hd bs) \<notin> f ` set (tl bs)"
  using assms by (cases bs) auto

lemmas emitter_defs = make_bundles_config_def slice0_def shift_def Let_def getBundlesPaths_def
  truthy_def fill_bundlesConfig_def obj_set_def property_key_def module_names_def
  JSON_stringify_def ownPropertyKeys_def array_index_def is_digit_def dec_val_def json_member_def
  json_array_def json_quote_def json_escape_def hex_digit_def named_bundle_def sample_node_def
  sample_configuration_def sample_loader_def

text \<open>
  C3, as the code has it. When the bundles that the loop visits have pairwise distinct
  property keys, none of them \<^verbatim>\<open>__proto__\<close>, the emitted text is the path statements
  followed by the assignment of the serialised object to \<^verbatim>\<open>System.bundles\<close>, and in that
  object the name of each such bundle maps to the names of the modules of its nodes, in
  the order of the nodes; the serialised text holds the entry. (Two bundles of one name
  share one property, which keeps the modules of the later one.)
\<close>

theorem manifest_maps_distinct_names:
  assumes "a < length h"
    and "bs = (if bundleSteal (options cfg) = Some True then tl (h ! a) else h ! a)"
    and "distinct (map property_key bs)"
    and "''__proto__'' \<notin> property_key ` set bs"
    and "b \<in> set bs"
  shows "fst (make_bundles_config h a cfg) =
           Inr \<lparr>load = \<lparr>load.name = ''[system-bundles-config]''\<rparr>,
                minifiedSource = Some (getBundlesPaths cfg @ ''System.bundles = '' @
                  JSON_stringify (fill_bundlesConfig bs) @ '';'')\<rparr>
       \<and> map_of (fill_bundlesConfig bs) (property_key b) = Some (module_names b)
       \<and> sublist (json_quote (property_key b) @ '':'' @ json_array (module_names b))
            (JSON_stringify (fill_bundlesConfig bs))"
  using assms(1,2) manifest_entry[OF assms(3,4,5)]
  by (simp add: make_bundles_config_result)

theorem manifest_maps_distinct_names_witness:
  "(0::nat) < length [[named_bundle ''bundles/main'' [''main'', ''jquery''],
                       named_bundle ''bundles/app_a'' [''app_a'']]]
   \<and> distinct (map property_key [named_bundle ''bundles/main'' [''main'', ''jquery''],
                       named_bundle ''bundles/app_a'' [''app_a'']])
   \<and> fst (make_bundles_config [[named_bundle ''bundles/main'' [''main'', ''jquery''],
                       named_bundle ''bundles/app_a'' [''app_a'']]] 0
             (sample_configuration False None)) =
       Inr \<lparr>load = \<lparr>load.name = ''[system-bundles-config]''\<rparr>,
            minifiedSource = Some
              ''System.bundles = {\"bundles/main\":[\"main\",\"jquery\"],\"bundles/app_a\":[\"app_a\"]};''\<rparr>
   \<and> map_of (fill_bundlesConfig [named_bundle ''bundles/main'' [''main'', ''jquery''],
                       named_bundle ''bundles/app_a'' [''app_a'']]) ''bundles/app_a''
       = Some [''app_a'']
   \<and> sublist ''\"bundles/app_a\":[\"app_a\"]''
        (JSON_stringify (fill_bundlesConfig [named_bundle ''bundles/main'' [''main'', ''jquery''],
                       named_bundle ''bundles/app_a'' [''app_a'']]))"
  using manifest_maps_distinct_names
    [of 0 "[[named_bundle ''bundles/main'' [''main'', ''jquery''],
             named_bundle ''bundles/app_a'' [''app_a'']]]"
        "[named_bundle ''bundles/main'' [''main'', ''jquery''],
          named_bundle ''bundles/app_a'' [''app_a'']]"
        "sample_configuration False None"
        "named_bundle ''bundles/app_a'' [''app_a'']"]
  by (simp add: emitter_defs)

theorem duplicate_names_counterexample:
  "fst (make_bundles_config [[named_bundle ''x'' [''a''], named_bundle ''x'' [''b'']]] 0
         (sample_configuration False None)) =
     Inr \<lparr>load = \<lparr>load.name = ''[system-bundles-config]''\<rparr>,
          minifiedSource = Some ''System.bundles = {\"x\":[\"b\"]};''\<rparr>
   \<and> module_names (named_bundle ''x'' [''a'']) = [''a'']
   \<and> fst (make_bundles_config [[named_bundle ''__proto__'' [''a'']]] 0
         (sample_configuration False None)) =
     Inr \<lparr>load = \<lparr>load.name = ''[system-bundles-config]''\<rparr>,
          minifiedSource = Some ''System.bundles = {};''\<rparr>"
  by (simp add: emitter_defs)

text \<open>
  C8, as the code has it. When the bundles of the list have pairwise distinct property
  keys, none of them \<^verbatim>\<open>__proto__\<close>: with \<^verbatim>\<open>bundleSteal\<close> the first bundle of the list,
  and no other, is missing from the object assigned to \<^verbatim>\<open>System.bundles\<close>; without it
  every bundle of the list has its entry.
\<close>

theorem bundleSteal_omits_first_bundle:
  assumes "a < length h"
    and "distinct (map property_key (h ! a))"
    and "''__proto__'' \<notin> property_key ` set (h ! a)"
    and "b \<in> set (h ! a)"
    and "obj = fill_bundlesConfig (if bundleSteal (options cfg) = Some True then tl (h ! a) else h ! a)"
  shows "fst (make_bundles_config h a cfg) =
           Inr \<lparr>load = \<lparr>load.name = ''[system-bundles-config]''\<rparr>,
                minifiedSource = Some (getBundlesPaths cfg @ ''System.bundles = '' @
                  JSON_stringify obj @ '';'')\<rparr>
       \<and> (if bundleSteal (options cfg) = Some True \<and> b = hd (h ! a)
            then property_key b \<notin> fst ` set obj
            else map_of obj (property_key b) = Some (module_names b)
               \<and> sublist (json_quote (property_key b) @ '':'' @ json_array (module_names b))
                    (JSON_stringify obj))"
proof -
  let ?bs = "if bundleSteal (options cfg) = Some True then tl (h ! a) else h ! a"
  let ?first = "bundleSteal (options cfg) = Some True \<and> b = hd (h ! a)"
  let ?absent = "property_key b \<notin> fst ` set obj"
  let ?present = "map_of obj (property_key b) = Some (module_names b)
               \<and> sublist (json_quote (property_key b) @ '':'' @ json_array (module_names b))
                    (JSON_stringify obj)"
  have src: "fst (make_bundles_config h a cfg) =
           Inr \<lparr>load = \<lparr>load.name = ''[system-bundles-config]''\<rparr>,
                minifiedSource = Some (getBundlesPaths cfg @ ''System.bundles = '' @
                  JSON_stringify obj @ '';'')\<rparr>"
    using assms(1) unfolding assms(5) by (simp add: make_bundles_config_result)
  from assms(4) have nonempty: "h ! a \<noteq> []" by auto
  have "if ?first then ?absent else ?present"
  proof (cases ?first)
    case True
    then have steal: "bundleSteal (options cfg) = Some True" and first: "b = hd (h ! a)"
      by simp_all
    from assms(2) nonempty have "property_key (hd (h ! a)) \<notin> property_key ` set (tl (h ! a))"
      by (rule hd_key_not_in_tl)
    then have "property_key (hd (h ! a)) \<notin> fst ` set (fill_bundlesConfig (tl (h ! a)))"
      by (simp add: fill_keys)
    with steal have gone: ?absent
      unfolding assms(5) first by simp
    have "(if ?first then ?absent else ?present) = ?absent"
      using True by (rule if_P)
    from this gone show ?thesis by (rule iffD2)
  next
    case False
    with assms(4) nonempty have mem: "b \<in> set ?bs"
      by (cases "h ! a") auto
    have d: "distinct (map property_key ?bs)"
      using assms(2) by (simp add: distinct_tl map_tl)
    have p: "''__proto__'' \<notin> property_key ` set ?bs"
      using assms(3) by (cases "h ! a") auto
    have there: ?present
      using manifest_entry[OF d p mem] unfolding assms(5) .
    have "(if ?first then ?absent else ?present) = ?present"
      using False by (rule if_not_P)
    from this there show ?thesis by (rule iffD2)
  qed
  with src show ?thesis by (rule conjI)
qed

theorem bundleSteal_omits_first_bundle_witness:
  "(0::nat) < length [[named_bundle ''bundles/main'' [''main'', ''jquery''],
                       named_bundle ''bundles/app_a'' [''app_a'']]]
   \<and> distinct (map property_key [named_bundle ''bundles/main'' [''main'', ''jquery''],
                       named_bundle ''bundles/app_a'' [''app_a'']])
   \<and> fst (make_bundles_config [[named_bundle ''bundles/main'' [''main'', ''jquery''],
                       named_bundle ''bundles/app_a'' [''app_a'']]] 0
             (sample_configuration True None)) =
       Inr \<lparr>load = \<lparr>load.name = ''[system-bundles-config]''\<rparr>,
            minifiedSource = Some ''System.bundles = {\"bundles/app_a\":[\"app_a\"]};''\<rparr>
   \<and> ''bundles/main'' \<notin> fst ` set (fill_bundlesConfig [named_bundle ''bundles/app_a'' [''app_a'']])"
  using bundleSteal_omits_first_bundle
    [of 0 "[[named_bundle ''bundles/main'' [''main'', ''jquery''],
             named_bundle ''bundles/app_a'' [''app_a'']]]"
        "named_bundle ''bundles/main'' [''main'', ''jquery'']"
        "fill_bundlesConfig [named_bundle ''bundles/app_a'' [''app_a'']]"
        "sample_configuration True None"]
  by (simp add: emitter_defs)

theorem overwritten_bundle_counterexample:
  "fst (make_bundles_config
          [[named_bundle ''bundles/main'' [''main''], named_bundle ''x'' [''a''],
            named_bundle ''x'' [''b'']]] 0
         (sample_configuration True None)) =
     Inr \<lparr>load = \<lparr>load.name = ''[system-bundles-config]''\<rparr>,
          minifiedSource = Some ''System.bundles = {\"x\":[\"b\"]};''\<rparr>
   \<and> module_names (named_bundle ''x'' [''a'']) = [''a'']
   \<and> fst (make_bundles_config
          [[named_bundle ''bundles/main'' [''main''], named_bundle ''__proto__'' [''a'']]] 0
         (sample_configuration False None)) =
     Inr \<lparr>load = \<lparr>load.name = ''[system-bundles-config]''\<rparr>,
          minifiedSource = Some ''System.bundles = {\"bundles/main\":[\"main\"]};''\<rparr>"
  by (simp add: emitter_defs)


text \<open>
  C9. The emitter works on a copy: whatever the options, every array that existed before
  the call, the caller's among them, holds after the call what it held before; the bundle
  that \<^verbatim>\<open>bundleSteal\<close> drops is dropped from the copy alone.
\<close>

theorem make_bundles_config_keeps_input_array:
  "take (length h) (snd (make_bundles_config h a cfg)) = h
   \<and> (a < length h \<longrightarrow>
        snd (make_bundles_config h a cfg) ! a = h ! a
        \<and> snd (make_bundles_config h a cfg) ! length h =
            (if bundleSteal (options cfg) = Some True then tl (h ! a) else h ! a))"
proof (cases "a < length h")
  case True
  then show ?thesis
    by (simp add: make_bundles_config_result nth_append)
next
  case False
  then show ?thesis
    by (simp add: make_bundles_config_dangling)
qed

theorem make_bundles_config_keeps_input_array_witness:
  "(0::nat) < length [[named_bundle ''bundles/main'' [''main'', ''jquery''],
                       named_bundle ''bundles/app_a'' [''app_a'']]]
   \<and> snd (make_bundles_config [[named_bundle ''bundles/main'' [''main'', ''jquery''],
                       named_bundle ''bundles/app_a'' [''app_a'']]] 0
             (sample_configuration True None)) =
       [[named_bundle ''bundles/main'' [''main'', ''jquery''],
         named_bundle ''bundles/app_a'' [''app_a'']],
        [named_bundle ''bundles/app_a'' [''app_a'']]]"
  using make_bundles_config_keeps_input_array
    [of "[[named_bundle ''bundles/main'' [''main'', ''jquery''],
             named_bundle ''bundles/app_a'' [''app_a'']]]" 0 "sample_configuration True None"]
  by (simp add: make_bundles_config_def slice0_def shift_def sample_configuration_def)


text \<open>
  C6. The emitted text starts with the two \<^verbatim>\<open>System.paths\<close> statements, built from the
  bundles-path URL, exactly when \<^verbatim>\<open>configuration.loader.bundlesPath\<close> is set (to a
  non-empty string: the code tests it with \<^verbatim>\<open>!\<close>); otherwise nothing precedes the
  assignment to \<^verbatim>\<open>System.bundles\<close>.
\<close>

theorem bundles_paths_prefix:
  assumes "a < length h"
  shows "(getBundlesPaths cfg \<noteq> [] \<longleftrightarrow> truthy (bundlesPath (configuration.loader cfg)))
   \<and> getBundlesPaths cfg =
       (if truthy (bundlesPath (configuration.loader cfg))
        then ''System.paths[\"bundles/*.css\"] =\"'' @ bundlesPathURL cfg @ ''/*css\";\<newline>'' @
             ''System.paths[\"bundles/*\"] = \"'' @ bundlesPathURL cfg @ ''/*.js\";\<newline>''
        else [])
   \<and> fst (make_bundles_config h a cfg) =
       Inr \<lparr>load = \<lparr>load.name = ''[system-bundles-config]''\<rparr>,
            minifiedSource = Some (getBundlesPaths cfg @ ''System.bundles = '' @
              JSON_stringify (fill_bundlesConfig
                (if bundleSteal (options cfg) = Some True then tl (h ! a) else h ! a)) @ '';'')\<rparr>"
proof (cases "truthy (bundlesPath (configuration.loader cfg))")
  case True
  from getBundlesPaths_set[OF True] True assms show ?thesis
    by (simp add: make_bundles_config_result)
next
  case False
  from getBundlesPaths_unset[OF False] False assms show ?thesis
    by (simp add: make_bundles_config_result)
qed

theorem bundles_paths_prefix_witness:
  "(0::nat) < length [[named_bundle ''bundles/main'' [''main'']]]
   \<and> truthy (bundlesPath (configuration.loader (sample_configuration False (Some ''../assets''))))
   \<and> fst (make_bundles_config [[named_bundle ''bundles/main'' [''main'']]] 0
            (sample_configuration False (Some ''../assets''))) =
       Inr \<lparr>load = \<lparr>load.name = ''[system-bundles-config]''\<rparr>,
            minifiedSource = Some
              (''System.paths[\"bundles/*.css\"] =\"/app/dist/bundles/*css\";\<newline>'' @
               ''System.paths[\"bundles/*\"] = \"/app/dist/bundles/*.js\";\<newline>'' @
               ''System.bundles = {\"bundles/main\":[\"main\"]};'')\<rparr>
   \<and> \<not> truthy (bundlesPath (configuration.loader (sample_configuration False None)))
   \<and> fst (make_bundles_config [[named_bundle ''bundles/main'' [''main'']]] 0
            (sample_configuration False None)) =
       Inr \<lparr>load = \<lparr>load.name = ''[system-bundles-config]''\<rparr>,
            minifiedSource = Some ''System.bundles = {\"bundles/main\":[\"main\"]};''\<rparr>"
  using bundles_paths_prefix
    [of 0 "[[named_bundle ''bundles/main'' [''main'']]]" "sample_configuration False (Some ''../assets'')"]
   bundles_paths_prefix
    [of 0 "[[named_bundle ''bundles/main'' [''main'']]]" "sample_configuration False None"]
  by (simp add: emitter_defs)

section \<open>Properties of the multi-bundle build\<close>

subsection \<open>Sequencing\<close>

lemma snd_and_then:
  "snd (and_then m f) = snd m @ (case fst m of Inl e \<Rightarrow> [] | Inr x \<Rightarrow> snd (f x))"
  by (cases m) (auto simp: and_then_def split: sum.splits prod.splits)

lemma fst_and_then:
  "fst (and_then m f) = (case fst m of Inl e \<Rightarrow> Inl e | Inr x \<Rightarrow> fst (f x))"
  by (cases m) (auto simp: and_then_def split: sum.splits prod.splits)

lemma and_then_ret [simp]: "and_then (ret x) f = f x"
  by (simp add: and_then_def ret_def)

lemma call_simps [simp]: "fst (call ev r) = r" "snd (call ev r) = [(ev, raised r)]"
  by (simp_all add: call_def)

lemma ret_simps [simp]: "fst (ret x) = Inr x" "snd (ret x) = []"
  by (simp_all add: ret_def)

lemma raised_simps [simp]: "raised (Inl e) = Some e" "raised (Inr x) = None"
  by (simp_all add: raised_def)

lemma raised_None [simp]: "(raised r = None) = (\<forall>e. r \<noteq> Inl e)"
  by (cases r) simp_all

lemma raised_Some [simp]: "(raised r = Some e) = (r = Inl e)"
  by (cases r) auto

lemma stages_Nil [simp]: "stages [] = []"
  by (simp add: stages_def map_filter_simps)

lemma stages_Cons [simp]:
  "stages (x # t) = (case stage (fst x) of None \<Rightarrow> stages t | Some k \<Rightarrow> k # stages t)"
  by (simp add: stages_def map_filter_simps split: option.splits)

lemma stages_append [simp]: "stages (t @ t') = stages t @ stages t'"
  by (induction t) (simp_all split: option.splits)

lemma called_simps [simp]:
  "called ev [] = False"
  "called ev (x # t) = (ev = fst x \<or> called ev t)"
  "called ev (t @ t') = (called ev t \<or> called ev t')"
  by (auto simp: called_def)

lemma raised_in_simps [simp]:
  "raised_in X [] = False"
  "raised_in X (x # t) = (X (fst x) \<and> snd x \<noteq> None \<or> raised_in X t)"
  "raised_in X (t @ t') = (raised_in X t \<or> raised_in X t')"
  by (auto simp: raised_in_def)

lemma raised_in_mono: "raised_in X t \<Longrightarrow> (\<And>ev. X ev \<Longrightarrow> Y ev) \<Longrightarrow> raised_in Y t"
  by (auto simp: raised_in_def list_ex_iff)


subsection \<open>The stages of a piece are in order\<close>











subsection \<open>The calls a piece makes\<close>









subsection \<open>What ends a piece is what its last call raised\<close>









subsection \<open>A piece that is ended has made a call that raised\<close>

lemma ex_call: "X ev \<Longrightarrow> excused X (call ev r)"
  by (cases r) (simp_all add: excused_def)

lemma ex_ret: "excused X (ret x)"
  by (simp add: excused_def)


lemma ex_and_then:
  assumes "excused X m" and "\<And>x. excused X (f x)"
  shows "excused X (and_then m f)"
proof (cases "fst m")
  case (Inl e)
  with assms(1) show ?thesis by (simp add: excused_def fst_and_then snd_and_then)
next
  case (Inr x)
  with assms(2)[of x] show ?thesis
    by (cases "fst (f x)") (simp_all add: excused_def fst_and_then snd_and_then)
qed

lemma ex_if: "excused X a \<Longrightarrow> excused X b \<Longrightarrow> excused X (if t then a else b)"
  by simp

lemma ex_forEach_order: "(\<And>s. X (Order s)) \<Longrightarrow> excused X (forEach_order c ms g)"
proof (induction ms arbitrary: g)
  case Nil
  show ?case by (simp add: ex_ret)
next
  case (Cons m ms)
  then show ?case by (simp add: ex_and_then ex_call)
qed

lemma ex_forEach_nameBundle: "X NameBundle \<Longrightarrow> excused X (forEach_nameBundle c named bs)"
proof (induction bs arbitrary: named)
  case Nil
  show ?case by (simp add: ex_ret)
next
  case (Cons b bs)
  then show ?case by (simp add: ex_and_then ex_call)
qed

subsection \<open>A piece reaches a call\<close>

lemma reaches_last: "reaches X ev (call ev r)"
  by (simp add: reaches_def)

lemma reaches_here: "reaches X ev m \<Longrightarrow> reaches X ev (and_then m f)"
  by (auto simp: reaches_def snd_and_then)

lemma reaches_head: "reaches X ev (and_then (call ev r) f)"
  by (rule reaches_here) (rule reaches_last)


lemma reaches_tail:
  assumes "excused X m" and "\<And>x. reaches X ev (f x)"
  shows "reaches X ev (and_then m f)"
proof (cases "fst m")
  case (Inl e)
  with assms(1) show ?thesis by (simp add: excused_def reaches_def snd_and_then)
next
  case (Inr x)
  with assms(2)[of x] show ?thesis by (auto simp: reaches_def snd_and_then)
qed

lemma reaches_case_prod: "(\<And>a b. reaches X ev (f a b)) \<Longrightarrow> reaches X ev (case_prod f x)"
  by (cases x) simp





lemmas reach_rules = reaches_head reaches_tail reaches_case_prod reaches_last
  ex_call ex_ret ex_if ex_forEach_order ex_forEach_nameBundle





lemma reaches_WriteBundles:
  "reaches (\<lambda>ev. position ev < position WriteBundles) WriteBundles
     (on_graph c config opts mo dt)"
  unfolding on_graph_def Let_def
  by (rule reach_rules | simp split: list.splits)+



subsection \<open>What ends a piece is raised by a collaborator\<close>


lemma returned_Inl [simp]: "(returned r = Inl e) = (r = Some e)"
  by (cases r) (simp_all add: returned_def)









subsection \<open>The exported function\<close>



lemma handler_trace:
  "snd (handler c e) = [] \<or>
   (\<exists>r. snd (handler c e) = [(WinstonError (message_of e) (stack_of e), r)])"
  by (simp add: handler_def split: option.splits)

lemma handler_stages [simp]: "stages (snd (handler c e)) = []"
  by (simp add: handler_def split: option.splits)











subsection \<open>A call that raises ends the build\<close>



lemma quiet_success:
  "honest m \<Longrightarrow> list_all (\<lambda>x. snd x = None) (snd m) \<Longrightarrow> \<exists>v. fst m = Inr v"
  by (cases "fst m") (auto simp: honest_def list_all_iff)














subsection \<open>Sample runs\<close>






subsection \<open>The claims about the build\<close>














end
